theory Spec2Isabelle
  imports Complex_Main
begin

section \<open>JavaScript values\<close>

text \<open>
  The client and the strategy pass around untyped JavaScript values: the tree that the
  XML parser returns, the attribute bag, the members of the request object.  They are
  modelled by one datatype.  \<open>JNum n\<close> is the number \<open>n\<close>, for an integer that
  binary64 holds and that is below \<open>10^21\<close> in magnitude (every number the modelled
  code computes is one); objects are association lists of own properties in insertion
  order.
  Members inherited from \<open>Object.prototype\<close> are not modelled, so property names
  such as \<open>toString\<close> are outside the model.  Strings are lists of 8-bit characters;
  the source only inspects ASCII characters.
\<close>

datatype jsval =
    JUndefined
  | JNull
  | JBool bool
  | JNum int
  | JStr string
  | JArr "jsval list"
  | JObj "(string \<times> jsval) list"

text \<open>What a \<open>throw\<close> carries: a \<open>TypeError\<close> of the runtime, an \<open>Error\<close>
  built by the code with its message, or the error object of the XML parser.\<close>

datatype js_error =
    TypeError
  | Error string
  | XMLError string

definition then_e :: "(js_error + 'a) \<Rightarrow> ('a \<Rightarrow> js_error + 'b) \<Rightarrow> js_error + 'b" where
  "then_e m f = (case m of Inl e \<Rightarrow> Inl e | Inr x \<Rightarrow> f x)"

subsection \<open>Numbers to strings\<close>

definition digit_char :: "nat \<Rightarrow> char" where
  "digit_char d = ''0123456789'' ! d"

fun show_nat :: "nat \<Rightarrow> string" where
  "show_nat n = (if n < 10 then [digit_char n] else show_nat (n div 10) @ [digit_char (n mod 10)])"

declare show_nat.simps [simp del]

definition show_int :: "int \<Rightarrow> string" where
  "show_int i = (if i < 0 then CHR ''-'' # show_nat (nat (- i)) else show_nat (nat i))"

subsection \<open>ToString, ToBoolean\<close>

fun intercalate :: "string \<Rightarrow> string list \<Rightarrow> string" where
  "intercalate sep [] = []"
| "intercalate sep [x] = x"
| "intercalate sep (x # y # ys) = x @ sep @ intercalate sep (y # ys)"

text \<open>\<open>String(v)\<close>, which is also what \<open>v + ' '\<close> and a computed property name
  \<open>o[v]\<close> apply to \<open>v\<close>.  An array is joined with commas, \<open>null\<close> and
  \<open>undefined\<close> elements giving the empty string.\<close>

fun to_str :: "jsval \<Rightarrow> string" where
  "to_str JUndefined = ''undefined''"
| "to_str JNull = ''null''"
| "to_str (JBool b) = (if b then ''true'' else ''false'')"
| "to_str (JNum n) = show_int n"
| "to_str (JStr s) = s"
| "to_str (JArr xs) =
     intercalate '','' (map (\<lambda>x. if x = JUndefined \<or> x = JNull then [] else to_str x) xs)"
| "to_str (JObj kvs) = ''[object Object]''"

fun truthy :: "jsval \<Rightarrow> bool" where
  "truthy JUndefined = False"
| "truthy JNull = False"
| "truthy (JBool b) = b"
| "truthy (JNum n) = (n \<noteq> 0)"
| "truthy (JStr s) = (s \<noteq> [])"
| "truthy (JArr xs) = True"
| "truthy (JObj kvs) = True"

text \<open>\<open>a || b\<close>\<close>

definition js_or :: "jsval \<Rightarrow> jsval \<Rightarrow> jsval" where
  "js_or a b = (if truthy a then a else b)"

subsection \<open>ToNumber\<close>

text \<open>
  A number as a comparison sees it.  The conversion of a string to a number belongs to
  the runtime and is a parameter \<open>to_number\<close> of the functions that compare: it
  gives the value of the binary64 number that \<open>Number(s)\<close> returns.
\<close>

datatype js_number =
    NaN
  | Finite rat
  | PlusInfinity
  | MinusInfinity

text \<open>The number that \<open>==\<close> and \<open><\<close> compare when one side is a number and the
  other side is \<open>v\<close>: an array or an object is first turned into its string.\<close>

fun to_number_value :: "(string \<Rightarrow> js_number) \<Rightarrow> jsval \<Rightarrow> js_number" where
  "to_number_value to_number JUndefined = NaN"
| "to_number_value to_number JNull = Finite 0"
| "to_number_value to_number (JBool b) = Finite (if b then 1 else 0)"
| "to_number_value to_number (JNum n) = Finite (of_int n)"
| "to_number_value to_number (JStr s) = to_number s"
| "to_number_value to_number (JArr xs) = to_number (to_str (JArr xs))"
| "to_number_value to_number (JObj kvs) = to_number (to_str (JObj kvs))"

subsection \<open>Property access\<close>

definition obj_get :: "(string \<times> jsval) list \<Rightarrow> string \<Rightarrow> jsval" where
  "obj_get kvs k = (case map_of kvs k of None \<Rightarrow> JUndefined | Some v \<Rightarrow> v)"

text \<open>\<open>o[k] = v\<close> on an object: an existing property keeps its place.\<close>

fun obj_set :: "(string \<times> jsval) list \<Rightarrow> string \<Rightarrow> jsval \<Rightarrow> (string \<times> jsval) list" where
  "obj_set [] k v = [(k, v)]"
| "obj_set ((k', v') # kvs) k v = (if k' = k then (k, v) # kvs else (k', v') # obj_set kvs k v)"

text \<open>\<open>v[i]\<close> for a number \<open>i\<close>.\<close>

fun get_index :: "jsval \<Rightarrow> nat \<Rightarrow> js_error + jsval" where
  "get_index JUndefined i = Inl TypeError"
| "get_index JNull i = Inl TypeError"
| "get_index (JArr xs) i = Inr (if i < length xs then xs ! i else JUndefined)"
| "get_index (JStr s) i = Inr (if i < length s then JStr [s ! i] else JUndefined)"
| "get_index (JObj kvs) i = Inr (obj_get kvs (show_nat i))"
| "get_index (JBool b) i = Inr JUndefined"
| "get_index (JNum n) i = Inr JUndefined"

text \<open>\<open>v[k]\<close> for a property name \<open>k\<close>.  Reading a property of \<open>undefined\<close> or
  \<open>null\<close> throws a \<open>TypeError\<close>; a missing property reads as \<open>undefined\<close>.\<close>

fun get_prop :: "jsval \<Rightarrow> string \<Rightarrow> js_error + jsval" where
  "get_prop JUndefined k = Inl TypeError"
| "get_prop JNull k = Inl TypeError"
| "get_prop (JObj kvs) k = Inr (obj_get kvs k)"
| "get_prop (JArr xs) k =
     Inr (if k = ''length'' then JNum (int (length xs))
          else (case filter (\<lambda>i. show_nat i = k) [0..<length xs] of
                  [] \<Rightarrow> JUndefined | i # _ \<Rightarrow> xs ! i))"
| "get_prop (JStr s) k =
     Inr (if k = ''length'' then JNum (int (length s))
          else (case filter (\<lambda>i. show_nat i = k) [0..<length s] of
                  [] \<Rightarrow> JUndefined | i # _ \<Rightarrow> JStr [s ! i]))"
| "get_prop (JBool b) k = Inr JUndefined"
| "get_prop (JNum n) k = Inr JUndefined"

text \<open>\<open>v.hasOwnProperty(k)\<close> for a property name \<open>k\<close> that is neither \<open>length\<close>
  nor an index.  On an object with an own member called \<open>hasOwnProperty\<close> the call
  finds this member, which is no function.\<close>

fun hasOwnProperty :: "jsval \<Rightarrow> string \<Rightarrow> js_error + bool" where
  "hasOwnProperty JUndefined k = Inl TypeError"
| "hasOwnProperty JNull k = Inl TypeError"
| "hasOwnProperty (JObj kvs) k =
     (if ''hasOwnProperty'' \<in> fst ` set kvs then Inl TypeError else Inr (k \<in> fst ` set kvs))"
| "hasOwnProperty (JArr xs) k = Inr False"
| "hasOwnProperty (JStr s) k = Inr False"
| "hasOwnProperty (JBool b) k = Inr False"
| "hasOwnProperty (JNum n) k = Inr False"

section \<open>The retry token\<close>

text \<open>
  \<^verbatim>\<open>var date = new Date();
  var token = Math.round(date.getTime() / 60000);\<close>
  \<open>getTime()\<close> is an integer number of milliseconds.  The quotient is taken here
  in the rationals.  JavaScript divides in binary64: for a time within the range of
  \<open>Date\<close> (at most \<open>8.64e15\<close> in magnitude) the quotient is below \<open>2^38\<close>,
  where neighbouring doubles are \<open>2^-15\<close> apart, less than twice the distance
  \<open>1/60000\<close> from a quotient that is not a half-integer to the nearest half-integer,
  and half-integers are doubles.  So the rounded quotient lies on the same side of every
  half-integer as the exact one, and \<open>Math.round\<close> returns the same integer for both.
\<close>

definition Math_round :: "rat \<Rightarrow> int" where
  "Math_round x = \<lfloor>x + 1 / 2\<rfloor>"

definition retry_token :: "int \<Rightarrow> int" where
  "retry_token getTime = Math_round (of_int getTime / 60000)"

section \<open>The validation request\<close>

text \<open>\<open>util.format\<close> with \<open>%s\<close> placeholders and string arguments: each
  placeholder takes the next argument as it is; arguments are not scanned again.\<close>

fun util_format :: "string \<Rightarrow> string list \<Rightarrow> string" where
  "util_format [] args = concat (map (\<lambda>a. CHR '' '' # a) args)"
| "util_format [c] args = c # concat (map (\<lambda>a. CHR '' '' # a) args)"
| "util_format (c # d # rest) [] = c # util_format (d # rest) []"
| "util_format (c # d # rest) (a # args) =
     (if c = CHR ''%'' \<and> d = CHR ''s'' then a @ util_format rest args
      else c # util_format (d # rest) (a # args))"

text \<open>The envelope of \<open>Cerbere.prototype.validate\<close>, the same in both clients;
  \<open>uuid_v4\<close> and \<open>toISOString\<close> stand for the results of \<open>uuid.v4()\<close> and
  \<open>new Date().toISOString()\<close>.\<close>

definition soapEnvelope :: "string \<Rightarrow> string \<Rightarrow> string \<Rightarrow> string" where
  \<open>soapEnvelope uuid_v4 toISOString ticket =
     util_format
       ''<SOAP-ENV:Envelope xmlns:SOAP-ENV="http://schemas.xmlsoap.org/soap/envelope/"><SOAP-ENV:Header/><SOAP-ENV:Body><samlp:Request xmlns:samlp="urn:oasis:names:tc:SAML:1.0:protocol" MajorVersion="1" MinorVersion="1" RequestID="%s" IssueInstant="%s"><samlp:AssertionArtifact>%s</samlp:AssertionArtifact></samlp:Request></SOAP-ENV:Body></SOAP-ENV:Envelope>''
       [uuid_v4, toISOString, ticket]\<close>

text \<open>The text before the artifact and the text after it.\<close>

definition envelope_head :: "string \<Rightarrow> string \<Rightarrow> string" where
  \<open>envelope_head uuid_v4 toISOString =
     ''<SOAP-ENV:Envelope xmlns:SOAP-ENV="http://schemas.xmlsoap.org/soap/envelope/"><SOAP-ENV:Header/><SOAP-ENV:Body><samlp:Request xmlns:samlp="urn:oasis:names:tc:SAML:1.0:protocol" MajorVersion="1" MinorVersion="1" RequestID="''
     @ uuid_v4 @ ''" IssueInstant="'' @ toISOString @ ''"><samlp:AssertionArtifact>''\<close>

definition envelope_tail :: string where
  \<open>envelope_tail = ''</samlp:AssertionArtifact></samlp:Request></SOAP-ENV:Body></SOAP-ENV:Envelope>''\<close>

text \<open>The escaping that the specification asks for, written from its words: the five
  XML special characters are replaced by their entities.  No function of the source
  corresponds to it.\<close>

fun spec_xml_escape :: "string \<Rightarrow> string" where
  "spec_xml_escape [] = []"
| "spec_xml_escape (c # cs) =
     (if c = CHR ''&'' then ''&amp;''
      else if c = CHR ''<'' then ''&lt;''
      else if c = CHR ''>'' then ''&gt;''
      else if c = CHR 0x22 then ''&quot;''
      else if c = CHR 0x27 then ''&apos;''
      else [c]) @ spec_xml_escape cs"

section \<open>The Cerbere client\<close>

text \<open>
  The two client files share the constructor: it keeps the parsed server address in the
  property \<open>cerbere_url\<close> and its path in \<open>base_path\<close>.  \<open>url.parse\<close> belongs
  to the runtime and is a parameter; it returns an object whose \<open>protocol\<close> is a
  string or \<open>null\<close>, and throws on an argument that is not a string.  The instance
  is the object of its own properties.
\<close>

definition Cerbere :: "(jsval \<Rightarrow> js_error + jsval) \<Rightarrow> jsval \<Rightarrow> js_error + jsval" where
  "Cerbere url_parse options =
     then_e (get_prop (js_or options (JObj [])) ''url'') (\<lambda>url.
       if \<not> truthy url then Inl (Error ''Required Cerbere option `url` missing.'')
       else then_e (url_parse url) (\<lambda>cerbere_url.
         then_e (get_prop cerbere_url ''protocol'') (\<lambda>protocol.
           if protocol \<noteq> JStr ''https:''
           then Inl (Error ''Cerbere url supports only https protocol.'')
           else then_e (get_prop cerbere_url ''hostname'') (\<lambda>hostname.
             if \<not> truthy hostname
             then Inl (Error ''Option `url` must be a valid url like: https://authentification.din.developpement-durable.gouv.fr/cas/public'')
             else then_e (get_prop cerbere_url ''pathname'') (\<lambda>pathname.
               Inr (JObj [(''cerbere_url'', cerbere_url), (''base_path'', pathname)]))))))"

subsection \<open>Sending the request\<close>

record request_options =
  ro_host :: jsval
  ro_port :: jsval
  ro_path :: string
  ro_method :: string
  ro_headers :: "(string \<times> string) list"

text \<open>What \<open>validate\<close> does before it returns: \<open>https.request(...)\<close>,
  \<open>req.write(soapEnvelope)\<close>, \<open>req.end()\<close>.  The callback is only called from the
  handlers that \<open>https.request\<close> registers, so never before the first event.\<close>

datatype io_event =
    HttpsRequest request_options
  | ReqWrite string
  | ReqEnd

definition validate_headers :: "(string \<times> string) list" where
  "validate_headers =
     [(''soapaction'', ''http://www.oasis-open.org/committees/security''),
      (''content-type'', ''text/xml; charset=utf-8''),
      (''accept'', ''text/xml''),
      (''connection'', ''keep-alive''),
      (''cache-control'', ''no-cache''),
      (''pragma'', ''no-cache'')]"

text \<open>
  \<open>Cerbere.prototype.validate\<close> of \<open>lib/cerbere.js\<close>, the client that parses the
  response with cheerio.  \<open>url_format pathname target\<close> stands for
  \<open>url.format({pathname: pathname, query: {TARGET: target}})\<close>.  The result is the
  list of events performed and the exception that ended the call, if any.
\<close>

definition validate_cheerio ::
  "(string \<Rightarrow> string \<Rightarrow> string) \<Rightarrow> string \<Rightarrow> string \<Rightarrow> jsval \<Rightarrow> string \<Rightarrow> string
     \<Rightarrow> io_event list \<times> js_error option" where
  "validate_cheerio url_format uuid_v4 toISOString this ticket service =
     (case
        then_e (get_prop this ''base_path'') (\<lambda>base_path.
        then_e (get_prop this ''cerbereURL'') (\<lambda>cerbereURL.
        then_e (get_prop cerbereURL ''hostname'') (\<lambda>hostname.
        then_e (get_prop this ''cerbereURL'') (\<lambda>cerbereURL'.
        then_e (get_prop cerbereURL' ''port'') (\<lambda>port.
          Inr \<lparr>ro_host = hostname, ro_port = port,
               ro_path = url_format (to_str base_path @ ''/'' @ ''/samlValidate'') service,
               ro_method = ''POST'', ro_headers = validate_headers\<rparr>)))))
      of Inl e \<Rightarrow> ([], Some e)
       | Inr opts \<Rightarrow>
           ([HttpsRequest opts, ReqWrite (soapEnvelope uuid_v4 toISOString ticket), ReqEnd], None))"

text \<open>\<open>Cerbere.prototype.validate\<close> of the client that parses the response with
  fast-xml-parser: it reads \<open>cerbere_url\<close>.\<close>

definition validate_fxp ::
  "(string \<Rightarrow> string \<Rightarrow> string) \<Rightarrow> string \<Rightarrow> string \<Rightarrow> jsval \<Rightarrow> string \<Rightarrow> string
     \<Rightarrow> io_event list \<times> js_error option" where
  "validate_fxp url_format uuid_v4 toISOString this ticket service =
     (case
        then_e (get_prop this ''base_path'') (\<lambda>base_path.
        then_e (get_prop this ''cerbere_url'') (\<lambda>cerbere_url.
        then_e (get_prop cerbere_url ''hostname'') (\<lambda>hostname.
        then_e (get_prop this ''cerbere_url'') (\<lambda>cerbere_url'.
        then_e (get_prop cerbere_url' ''port'') (\<lambda>port.
          Inr \<lparr>ro_host = hostname, ro_port = port,
               ro_path = url_format (to_str base_path @ ''/samlValidate'') service,
               ro_method = ''POST'', ro_headers = validate_headers\<rparr>)))))
      of Inl e \<Rightarrow> ([], Some e)
       | Inr opts \<Rightarrow>
           ([HttpsRequest opts, ReqWrite (soapEnvelope uuid_v4 toISOString ticket), ReqEnd], None))"

subsection \<open>Reading the response (fast-xml-parser client)\<close>

type_synonym bag = "string \<rightharpoonup> jsval"

definition bag_get :: "bag \<Rightarrow> string \<Rightarrow> jsval" where
  "bag_get attributes k = (case attributes k of None \<Rightarrow> JUndefined | Some v \<Rightarrow> v)"

text \<open>
  The object that \<open>parseAttributes\<close> builds from \<open>{}\<close>: its own properties and
  its prototype, \<open>None\<close> for the initial \<open>Object.prototype\<close>.
\<close>

record attributes_object =
  ao_own :: bag
  ao_proto :: "jsval option"

record extended =
  ext_username :: jsval
  ext_attributes :: attributes_object
  ext_ticket :: string

text \<open>The arguments of one call of the callback: \<open>callback(err)\<close> and
  \<open>callback(err, false)\<close>, or \<open>callback(undefined, true, username, extended)\<close>.\<close>

datatype callback_args =
    CallbackError js_error "bool option"
  | CallbackSuccess jsval extended

text \<open>
  Whether the name \<open>__proto__\<close> still reaches the setter that
  \<open>Object.prototype\<close> provides: the object has no own property of this name, and
  its prototype chain leads to \<open>Object.prototype\<close> without meeting one.
\<close>

definition setter_reachable :: "attributes_object \<Rightarrow> bool" where
  "setter_reachable attributes =
     (ao_own attributes ''__proto__'' = None \<and>
      (case ao_proto attributes of
         None \<Rightarrow> True
       | Some (JObj kvs) \<Rightarrow> ''__proto__'' \<notin> fst ` set kvs
       | Some (JArr xs) \<Rightarrow> True
       | Some _ \<Rightarrow> False))"

text \<open>
  \<open>attributes[name] = text\<close>.  Through the setter an object or \<open>null\<close> becomes
  the prototype and any other value is dropped; every other assignment stores an own
  property.
\<close>

definition assign_attribute :: "attributes_object \<Rightarrow> string \<Rightarrow> jsval \<Rightarrow> attributes_object" where
  "assign_attribute attributes name text =
     (if name = ''__proto__'' \<and> setter_reachable attributes then
        (case text of
           JNull \<Rightarrow> attributes\<lparr>ao_proto := Some JNull\<rparr>
         | JObj kvs \<Rightarrow> attributes\<lparr>ao_proto := Some text\<rparr>
         | JArr xs \<Rightarrow> attributes\<lparr>ao_proto := Some text\<rparr>
         | _ \<Rightarrow> attributes)
      else attributes\<lparr>ao_own := (ao_own attributes)(name \<mapsto> text)\<rparr>)"

text \<open>
  The loop of \<open>parseAttributes\<close> over the elements \<open>elemAttributes[i]\<close>:
  \<^verbatim>\<open>if (elemAttribute.hasOwnProperty('@_AttributeName')){
    attributes[elemAttribute['@_AttributeName']] = elemAttribute['AttributeValue']['#text'];
  }\<close>
\<close>

fun parseAttributes_loop :: "jsval list \<Rightarrow> attributes_object \<Rightarrow> js_error + attributes_object" where
  "parseAttributes_loop [] attributes = Inr attributes"
| "parseAttributes_loop (elemAttribute # rest) attributes =
     then_e (hasOwnProperty elemAttribute ''@_AttributeName'') (\<lambda>has.
       if has then
         then_e (get_prop elemAttribute ''@_AttributeName'') (\<lambda>name.
         then_e (get_prop elemAttribute ''AttributeValue'') (\<lambda>elemValue.
         then_e (get_prop elemValue ''#text'') (\<lambda>text.
           parseAttributes_loop rest (assign_attribute attributes (to_str name) text))))
       else parseAttributes_loop rest attributes)"

text \<open>The number of indices \<open>i = 0, 1, ...\<close> with \<open>i < bound\<close>; \<open>limit\<close> stands
  in for an infinite bound.\<close>

definition iterations :: "js_number \<Rightarrow> nat \<Rightarrow> nat" where
  "iterations bound limit =
     (case bound of
        Finite r \<Rightarrow> nat \<lceil>r\<rceil>
      | PlusInfinity \<Rightarrow> limit
      | _ \<Rightarrow> 0)"

text \<open>
  \<open>parseAttributes\<close> runs the loop for \<open>i < elemAttributes.length\<close>, starting from
  \<open>attributes = {}\<close>.  An array gives its elements.  A string gives its characters,
  none of which has the property.  A number or a boolean has no \<open>length\<close>.  An
  object that is not an array is read through its member \<open>length\<close>, converted to a
  number, and its members \<open>0\<close>, \<open>1\<close>, ...; a missing member reads as
  \<open>undefined\<close>, on which the call of \<open>hasOwnProperty\<close> throws.  When the bound
  is infinite the loop therefore ends at the first missing index, which is among the first
  \<open>length kvs\<close> ones.
\<close>

definition empty_attributes :: attributes_object where
  "empty_attributes = \<lparr>ao_own = Map.empty, ao_proto = None\<rparr>"

fun parseAttributes :: "(string \<Rightarrow> js_number) \<Rightarrow> jsval \<Rightarrow> js_error + attributes_object" where
  "parseAttributes to_number JUndefined = Inl TypeError"
| "parseAttributes to_number JNull = Inl TypeError"
| "parseAttributes to_number (JArr elems) = parseAttributes_loop elems empty_attributes"
| "parseAttributes to_number (JStr s) =
     parseAttributes_loop (map (\<lambda>c. JStr [c]) s) empty_attributes"
| "parseAttributes to_number (JObj kvs) =
     parseAttributes_loop
       (map (\<lambda>i. obj_get kvs (show_nat i))
          [0..<iterations (to_number_value to_number (obj_get kvs ''length'')) (Suc (length kvs))])
       empty_attributes"
| "parseAttributes to_number (JBool b) = Inr empty_attributes"
| "parseAttributes to_number (JNum n) = Inr empty_attributes"

text \<open>
  The part of the \<open>end\<close> handler after the parser has returned \<open>jsonResponse\<close>.
  \<open>Inl\<close> is an exception that leaves the handler, \<open>Inr\<close> the arguments with which
  the handler calls the callback.
\<close>

definition dispatch_success ::
  "(string \<Rightarrow> js_number) \<Rightarrow> string \<Rightarrow> jsval \<Rightarrow> js_error + callback_args" where
  "dispatch_success to_number ticket elemResponse =
     then_e (get_prop elemResponse ''Assertion'') (\<lambda>assertions.
     then_e (get_index assertions 0) (\<lambda>assertion.
     then_e (get_prop assertion ''AttributeStatement'') (\<lambda>elemAttributeStatement.
     then_e (get_prop elemAttributeStatement ''Subject'') (\<lambda>subject.
     then_e (get_prop subject ''NameIdentifier'') (\<lambda>nameIdentifier.
     then_e (get_prop nameIdentifier ''#text'') (\<lambda>userId.
       if \<not> truthy userId then Inr (CallbackError (Error ''No userId?'') (Some False))
       else
         then_e (get_prop elemAttributeStatement ''Attribute'') (\<lambda>elemAttributes.
         then_e (parseAttributes to_number elemAttributes) (\<lambda>attributes.
           Inr (CallbackSuccess userId
                  \<lparr>ext_username = userId, ext_attributes = attributes,
                   ext_ticket = ticket\<rparr>)))))))))"

definition dispatch_failure :: "jsval \<Rightarrow> js_error + callback_args" where
  "dispatch_failure elemStatusCode =
     then_e (get_prop elemStatusCode ''@_Value'') (\<lambda>code.
     then_e (get_prop elemStatusCode ''#text'') (\<lambda>text.
       Inr (CallbackError
              (Error (''Validation failed ['' @ to_str code @ '']: '' @ to_str text))
              (Some False))))"

definition dispatch ::
  "(string \<Rightarrow> js_number) \<Rightarrow> string \<Rightarrow> jsval \<Rightarrow> js_error + callback_args" where
  "dispatch to_number ticket jsonResponse =
     then_e (get_prop jsonResponse ''Envelope'') (\<lambda>envelope.
     then_e (get_prop envelope ''Body'') (\<lambda>body.
     then_e (get_prop body ''Response'') (\<lambda>elemResponse.
     then_e (get_prop elemResponse ''Status'') (\<lambda>status.
     then_e (get_prop status ''StatusCode'') (\<lambda>elemStatusCode.
     then_e (get_prop elemStatusCode ''@_Value'') (\<lambda>statusValue.
       if statusValue = JStr ''ns2:Success'' then dispatch_success to_number ticket elemResponse
       else dispatch_failure elemStatusCode))))))"

text \<open>
  The \<open>end\<close> handler.  \<open>fxp_parse\<close> stands for
  \<open>fxp.parse(response, {...}, true)\<close>, which validates the text and throws when it is
  not well-formed XML.
  \<^verbatim>\<open>try{ jsonResponse = fxp.parse(response, ..., true); }
  catch(error){ callback(error, false); console.error(error); return; }\<close>
\<close>

definition on_end ::
  "(string \<Rightarrow> js_number) \<Rightarrow> (string \<Rightarrow> js_error + jsval) \<Rightarrow> string \<Rightarrow> string
     \<Rightarrow> js_error + callback_args" where
  "on_end to_number fxp_parse ticket response =
     (case fxp_parse response of
        Inl error \<Rightarrow> Inr (CallbackError error (Some False))
      | Inr jsonResponse \<Rightarrow> dispatch to_number ticket jsonResponse)"

section \<open>The strategy\<close>

subsection \<open>Comparing the retry marker with the token\<close>

definition is_digit :: "char \<Rightarrow> bool" where
  "is_digit c = (48 \<le> (of_char c :: nat) \<and> (of_char c :: nat) \<le> 57)"

text \<open>The characters of \<open>\w\<close> together with \<open>.\<close> and \<open>-\<close>: the class
  \<open>[\w.-]\<close> of the ticket pattern.\<close>

definition is_ticket_char :: "char \<Rightarrow> bool" where
  "is_ticket_char c =
     (let n = (of_char c :: nat) in
        (48 \<le> n \<and> n \<le> 57) \<or> (65 \<le> n \<and> n \<le> 90) \<or> (97 \<le> n \<and> n \<le> 122)
        \<or> c = CHR ''_'' \<or> c = CHR ''.'' \<or> c = CHR ''-'')"

text \<open>\<open>v == n\<close> for a number \<open>n\<close>: \<open>undefined\<close> and \<open>null\<close> equal no
  number, every other value is converted to a number first.\<close>

fun loose_eq_number :: "(string \<Rightarrow> js_number) \<Rightarrow> jsval \<Rightarrow> int \<Rightarrow> bool" where
  "loose_eq_number to_number JUndefined n = False"
| "loose_eq_number to_number JNull n = False"
| "loose_eq_number to_number v n = (to_number_value to_number v = Finite (of_int n))"

subsection \<open>Rewriting the request URL\<close>

text \<open>A match of \<open>/_cas_retry=\d+&?/\<close> at the start of the text: what follows it.\<close>

definition match_cas_retry :: "string \<Rightarrow> string option" where
  "match_cas_retry s =
     (if take 11 s = ''_cas_retry='' \<and> takeWhile is_digit (drop 11 s) \<noteq> [] then
        (let r = dropWhile is_digit (drop 11 s) in
           Some (if r \<noteq> [] \<and> hd r = CHR ''&'' then tl r else r))
      else None)"

text \<open>\<open>.replace(/_cas_retry=\d+&?/, '')\<close>: the leftmost match is removed.\<close>

fun replace_cas_retry :: "string \<Rightarrow> string" where
  "replace_cas_retry [] = []"
| "replace_cas_retry (c # cs) =
     (case match_cas_retry (c # cs) of
        Some r \<Rightarrow> r
      | None \<Rightarrow> c # replace_cas_retry cs)"

text \<open>\<open>.replace(/([?&])ticket=[\w.-]+/, '$1_cas_retry=' + token)\<close>: the leftmost
  match keeps its first character and becomes the marker.\<close>

fun replace_ticket :: "string \<Rightarrow> string \<Rightarrow> string" where
  "replace_ticket token [] = []"
| "replace_ticket token (c # cs) =
     (if (c = CHR ''?'' \<or> c = CHR ''&'') \<and> take 7 cs = ''ticket=''
         \<and> takeWhile is_ticket_char (drop 7 cs) \<noteq> []
      then c # ''_cas_retry='' @ token @ dropWhile is_ticket_char (drop 7 cs)
      else c # replace_ticket token cs)"

subsection \<open>The request and the outcome\<close>

text \<open>The members of the host's request object that the failure branch reads:
  \<open>originalUrl\<close> (a string or \<open>undefined\<close>), \<open>url\<close> and the parsed
  \<open>query\<close>.\<close>

record request =
  req_originalUrl :: "string option"
  req_url :: string
  req_query :: "(string \<times> jsval) list"

text \<open>\<open>req.originalUrl || req.url\<close>\<close>

definition request_url :: "request \<Rightarrow> string" where
  "request_url req =
     (case req_originalUrl req of
        None \<Rightarrow> req_url req
      | Some u \<Rightarrow> if u = [] then req_url req else u)"

subsection \<open>The profile\<close>

record value_entry =
  e_value :: jsval
  e_type :: string

record adresse_entry =
  a_street :: jsval
  a_town :: jsval
  a_streetcode :: jsval
  a_country :: jsval
  a_type :: string

record organization_entry =
  o_code :: jsval
  o_name :: jsval
  o_type :: string

text \<open>The profile object: its seven initial properties, and the properties added
  after them, in order.\<close>

record profile =
  p_provider :: jsval
  p_id :: jsval
  p_name :: "(string \<times> jsval) list"
  p_emails :: "value_entry list"
  p_telephones :: "value_entry list"
  p_adresses :: "adresse_entry list"
  p_organizations :: "organization_entry list"
  p_extra :: "(string \<times> jsval) list"

text \<open>
  The property map given to the constructor.  Its sections \<open>name\<close>, \<open>emails\<close>,
  \<open>telephones\<close>, \<open>adresses\<close> and \<open>organizations\<close> have the shape that the
  README shows; \<open>pm_scalars\<close> holds its other own properties in order, each naming
  an attribute key by a string (among them \<open>id\<close>, when the map has one).
\<close>

record adresse_key =
  k_street :: string
  k_town :: string
  k_streetcode :: string
  k_country :: string

record organization_key =
  k_code :: string
  k_name :: string

record property_map =
  pm_scalars :: "(string \<times> string) list"
  pm_name :: "(string \<times> string) list"
  pm_emails :: "(string \<times> string) list"
  pm_telephones :: "(string \<times> string) list"
  pm_adresses :: "(adresse_key \<times> string) list"
  pm_organizations :: "(organization_key \<times> string) list"

datatype action =
    Redirect string nat
  | Fail js_error
  | Verify jsval profile

subsection \<open>The retry controller\<close>

text \<open>
  The branch \<open>if (err)\<close> of the callback in \<open>lib/strategy.js\<close>, which is also
  the body of the \<open>catch\<close> of the asynchronous strategy:
  \<^verbatim>\<open>var token = Math.round(date.getTime() / 60000);
  if (req.query['_cas_retry'] != token) {
    var url = (req.originalUrl || req.url)
      .replace(/_cas_retry=\d+&?/, '')
      .replace(/([?&])ticket=[\w.-]+/, '$1_cas_retry=' + token);
    self.redirect(url, 307);
  } else {
    self.fail(err);
  }\<close>
\<close>

definition validation_failed ::
  "(string \<Rightarrow> js_number) \<Rightarrow> request \<Rightarrow> int \<Rightarrow> js_error \<Rightarrow> action" where
  "validation_failed to_number req getTime err =
     (let token = retry_token getTime in
        if \<not> loose_eq_number to_number (obj_get (req_query req) ''_cas_retry'') token
        then Redirect (replace_ticket (show_int token) (replace_cas_retry (request_url req))) 307
        else Fail err)"

subsection \<open>The attribute normalizer\<close>

definition initial_profile :: "jsval \<Rightarrow> profile" where
  "initial_profile idv =
     \<lparr>p_provider = JStr ''Cerbere'', p_id = idv,
      p_name = [(''civilite'', JNull), (''familyName'', JNull), (''givenName'', JNull),
                (''middleName'', JNull)],
      p_emails = [], p_telephones = [], p_adresses = [], p_organizations = [],
      p_extra = []\<rparr>"

text \<open>The last branch of the loop over the profile's keys, reached for \<open>provider\<close>
  and \<open>id\<close>:
  \<^verbatim>\<open>if (self.propertyMap.hasOwnProperty(key)) {
    if (Array.isArray(self.propertyMap[key])) { ... }
    else { profile[key] = attributes[self.propertyMap[key]]; }
  }\<close>
  A scalar property of the map is a string, never an array, so the second branch is the
  one taken.\<close>

definition map_scalar :: "property_map \<Rightarrow> bag \<Rightarrow> string \<Rightarrow> jsval \<Rightarrow> jsval" where
  "map_scalar propertyMap attributes key current =
     (case map_of (pm_scalars propertyMap) key of
        None \<Rightarrow> current
      | Some mapped \<Rightarrow> bag_get attributes mapped)"

text \<open>\<^verbatim>\<open>for (var nameKey in self.propertyMap[key]) {
    profile.name[nameKey] = attributes[self.propertyMap.name[nameKey]];
    delete attributes[nameKey];
  }\<close>\<close>

fun map_name :: "(string \<times> string) list \<Rightarrow> bag \<Rightarrow> (string \<times> jsval) list
    \<Rightarrow> bag \<times> (string \<times> jsval) list" where
  "map_name [] attributes name = (attributes, name)"
| "map_name ((nameKey, mapped) # rest) attributes name =
     map_name rest (attributes(nameKey := None)) (obj_set name nameKey (bag_get attributes mapped))"

text \<open>\<^verbatim>\<open>profile.name['displayName'] = profile.name['civilite'] + ' '
      + profile.name['givenName'] + ' ' + profile.name['familyName']\<close>\<close>

definition displayName :: "(string \<times> jsval) list \<Rightarrow> jsval" where
  "displayName name =
     JStr (to_str (obj_get name ''civilite'') @ '' '' @ to_str (obj_get name ''givenName'')
           @ '' '' @ to_str (obj_get name ''familyName''))"

text \<open>\<^verbatim>\<open>self.propertyMap.emails.forEach(function (email) {
    profile.emails.push({'value': attributes[email.key], 'type': email.type});
    delete attributes[email.key];
  });\<close>\<close>

fun map_emails :: "(string \<times> string) list \<Rightarrow> bag \<Rightarrow> value_entry list
    \<Rightarrow> bag \<times> value_entry list" where
  "map_emails [] attributes emails = (attributes, emails)"
| "map_emails ((key, type) # rest) attributes emails =
     map_emails rest (attributes(key := None))
       (emails @ [\<lparr>e_value = bag_get attributes key, e_type = type\<rparr>])"

text \<open>\<^verbatim>\<open>self.propertyMap.telephones.forEach(function (telephone) {
    profile.telephones.push({'value': attributes[telephone.key], 'type': telephone.type});
    delete attributes[telephone.type];
  });\<close>\<close>

fun map_telephones :: "(string \<times> string) list \<Rightarrow> bag \<Rightarrow> value_entry list
    \<Rightarrow> bag \<times> value_entry list" where
  "map_telephones [] attributes telephones = (attributes, telephones)"
| "map_telephones ((key, type) # rest) attributes telephones =
     map_telephones rest (attributes(type := None))
       (telephones @ [\<lparr>e_value = bag_get attributes key, e_type = type\<rparr>])"

definition map_adresse :: "bag \<Rightarrow> adresse_key \<times> string \<Rightarrow> adresse_entry" where
  "map_adresse attributes adresse =
     \<lparr>a_street = bag_get attributes (k_street (fst adresse)),
      a_town = bag_get attributes (k_town (fst adresse)),
      a_streetcode = bag_get attributes (k_streetcode (fst adresse)),
      a_country = bag_get attributes (k_country (fst adresse)),
      a_type = snd adresse\<rparr>"

definition map_organization :: "bag \<Rightarrow> organization_key \<times> string \<Rightarrow> organization_entry" where
  "map_organization attributes organization =
     \<lparr>o_code = bag_get attributes (k_code (fst organization)),
      o_name = bag_get attributes (k_name (fst organization)),
      o_type = snd organization\<rparr>"

definition profile_keys :: "string list" where
  "profile_keys =
     [''provider'', ''id'', ''name'', ''emails'', ''telephones'', ''adresses'', ''organizations'']"

text \<open>\<^verbatim>\<open>for (var property in self.propertyMap) {
    if (!profile.hasOwnProperty(property)) {
      profile[property] = attributes[self.propertyMap[property]];
    }
  }\<close>
  The sections of the property map are properties of the profile already.\<close>

fun map_extra :: "(string \<times> string) list \<Rightarrow> bag \<Rightarrow> (string \<times> jsval) list
    \<Rightarrow> (string \<times> jsval) list" where
  "map_extra [] attributes extra = extra"
| "map_extra ((property, mapped) # rest) attributes extra =
     (if property \<in> set profile_keys \<or> property \<in> fst ` set extra
      then map_extra rest attributes extra
      else map_extra rest attributes (extra @ [(property, bag_get attributes mapped)]))"

text \<open>The two loops of the normalizer, run on the initial profile: the loop over the
  keys \<open>provider\<close>, \<open>id\<close>, \<open>name\<close>, \<open>emails\<close>, \<open>telephones\<close>,
  \<open>adresses\<close>, \<open>organizations\<close> of the profile, in this order, then the loop
  over the property map.  The attribute bag is updated on the way.\<close>

definition normalize :: "property_map \<Rightarrow> bag \<Rightarrow> profile \<Rightarrow> profile" where
  "normalize propertyMap attributes profile =
     (let provider = map_scalar propertyMap attributes ''provider'' (p_provider profile);
          idv = map_scalar propertyMap attributes ''id'' (p_id profile);
          (attributes1, name) = map_name (pm_name propertyMap) attributes (p_name profile);
          name' = obj_set name ''displayName'' (displayName name);
          (attributes2, emails) = map_emails (pm_emails propertyMap) attributes1 (p_emails profile);
          (attributes3, telephones) =
             map_telephones (pm_telephones propertyMap) attributes2 (p_telephones profile);
          adresses = p_adresses profile @ map (map_adresse attributes3) (pm_adresses propertyMap);
          organizations =
             p_organizations profile @ map (map_organization attributes3) (pm_organizations propertyMap)
      in \<lparr>p_provider = provider, p_id = idv, p_name = name', p_emails = emails,
           p_telephones = telephones, p_adresses = adresses, p_organizations = organizations,
           p_extra = map_extra (pm_scalars propertyMap) attributes3 (p_extra profile)\<rparr>)"

text \<open>The profile of \<open>lib/strategy.js\<close>, which starts from
  \<open>id: attributes.id || username\<close>.\<close>

definition build_profile :: "property_map \<Rightarrow> bag \<Rightarrow> jsval \<Rightarrow> profile" where
  "build_profile propertyMap attributes username =
     normalize propertyMap attributes
       (initial_profile (js_or (bag_get attributes ''id'') username))"

text \<open>The profile of the asynchronous strategy, which starts from
  \<open>id: attributes.id\<close>.\<close>

definition build_profile_async :: "property_map \<Rightarrow> bag \<Rightarrow> profile" where
  "build_profile_async propertyMap attributes =
     normalize propertyMap attributes (initial_profile (bag_get attributes ''id''))"

subsection \<open>authenticate, after the validation\<close>

text \<open>
  The own properties of an object as a bag; a primitive value has none that a property
  map names.
\<close>

fun bag_of :: "jsval \<Rightarrow> bag" where
  "bag_of (JObj kvs) = map_of kvs"
| "bag_of v = Map.empty"

text \<open>
  \<open>authenticate\<close> of the asynchronous strategy, after
  \<open>await self.cerbere.validate(ticket)\<close> has thrown (\<open>Inl\<close>) or given
  \<open>resultat\<close> (\<open>Inr\<close>).  The \<open>catch\<close> does not return: the code after it runs
  with \<open>resultat = {}\<close>.  The result is the list of actions and the exception that
  ends the call, if any.
\<close>

definition after_validate ::
  "(string \<Rightarrow> js_number) \<Rightarrow> property_map \<Rightarrow> request \<Rightarrow> int \<Rightarrow> js_error + jsval
     \<Rightarrow> action list \<times> js_error option" where
  "after_validate to_number propertyMap req getTime awaited =
     (let (done, resultat) =
            (case awaited of
               Inl err \<Rightarrow> ([validation_failed to_number req getTime err], JObj [])
             | Inr r \<Rightarrow> ([], r))
      in case then_e (get_prop resultat ''attributes'') (\<lambda>attributes.
              then_e (get_prop attributes ''id'') (\<lambda>idv. Inr attributes)) of
           Inl e \<Rightarrow> (done, Some e)
         | Inr attributes \<Rightarrow>
             (let profile = build_profile_async propertyMap (bag_of attributes)
              in (done @ [Verify (p_id profile) profile], None)))"

subsection \<open>The legacy strategy\<close>

text \<open>
  The second strategy kept in \<open>lib/strategy.js\<close> builds its profile from the
  callback's \<open>extended\<close> and a flat map \<open>self.casPropertyMap\<close>, which its
  constructor never assigns (it is \<open>undefined\<close> unless the application sets it).
  The profile and the attributes are objects, here lists of properties in order.  It ends
  with
  \<^verbatim>\<open>// Add remaining attributes to the profile object
  for (var key in attributes) { profile[key] = attributes[key]; }\<close>
\<close>

text \<open>\<open>delete o[k]\<close>\<close>

definition obj_delete :: "(string \<times> jsval) list \<Rightarrow> string \<Rightarrow> (string \<times> jsval) list" where
  "obj_delete kvs k = filter (\<lambda>kv. fst kv \<noteq> k) kvs"

text \<open>\<open>self.casPropertyMap[key] || key\<close>, as a property name.\<close>

definition legacy_mapped_key :: "jsval \<Rightarrow> string \<Rightarrow> js_error + string" where
  "legacy_mapped_key casPropertyMap key =
     then_e (get_prop casPropertyMap key) (\<lambda>mapped. Inr (to_str (js_or mapped (JStr key))))"

text \<open>\<open>value[0]\<close> of an array.\<close>

definition first_of :: "jsval list \<Rightarrow> jsval" where
  "first_of xs = (case xs of [] \<Rightarrow> JUndefined | x # _ \<Rightarrow> x)"

text \<open>The branch for \<open>provider\<close>, \<open>id\<close> and \<open>displayName\<close>:
  \<^verbatim>\<open>var mappedKey = self.casPropertyMap[key] || key;
  var value = attributes[mappedKey];
  if (Array.isArray(value)) { profile[key] = value[0]; }
  else if (value) { profile[key] = value; }
  delete attributes[mappedKey];\<close>\<close>

definition legacy_scalar ::
  "jsval \<Rightarrow> string \<Rightarrow> (string \<times> jsval) list \<times> (string \<times> jsval) list
     \<Rightarrow> js_error + (string \<times> jsval) list \<times> (string \<times> jsval) list" where
  "legacy_scalar casPropertyMap key state =
     then_e (legacy_mapped_key casPropertyMap key) (\<lambda>mappedKey.
       (let attributes = fst state; profile = snd state;
            value = obj_get attributes mappedKey
        in Inr (obj_delete attributes mappedKey,
                (case value of
                   JArr xs \<Rightarrow> obj_set profile key (first_of xs)
                 | _ \<Rightarrow> if truthy value then obj_set profile key value else profile))))"

text \<open>The loop over the keys of \<open>profile.name\<close>.\<close>

fun legacy_name :: "jsval \<Rightarrow> string list \<Rightarrow> (string \<times> jsval) list \<Rightarrow> (string \<times> jsval) list
    \<Rightarrow> js_error + (string \<times> jsval) list \<times> (string \<times> jsval) list" where
  "legacy_name casPropertyMap [] attributes name = Inr (attributes, name)"
| "legacy_name casPropertyMap (subKey # rest) attributes name =
     then_e (legacy_mapped_key casPropertyMap subKey) (\<lambda>mappedKey.
       (let value = obj_get attributes mappedKey
        in legacy_name casPropertyMap rest (obj_delete attributes mappedKey)
             (obj_set name subKey (case value of JArr xs \<Rightarrow> first_of xs | _ \<Rightarrow> value))))"

text \<open>\<open>typeof v == 'object'\<close>\<close>

fun typeof_object :: "jsval \<Rightarrow> bool" where
  "typeof_object JNull = True"
| "typeof_object (JArr xs) = True"
| "typeof_object (JObj kvs) = True"
| "typeof_object v = False"

text \<open>What \<open>profile.emails\<close> becomes for the value \<open>emails\<close> of the mapped
  attribute.\<close>

definition legacy_emails :: "jsval \<Rightarrow> jsval" where
  "legacy_emails emails =
     (case emails of
        JArr xs \<Rightarrow>
          if typeof_object (first_of xs) then JArr xs
          else JArr (map (\<lambda>e. JObj [(''value'', e), (''type'', JStr ''default'')]) xs)
      | _ \<Rightarrow> JArr [emails])"

text \<open>The whole normalization: the loop over the keys \<open>provider\<close>, \<open>id\<close>,
  \<open>displayName\<close>, \<open>name\<close>, \<open>emails\<close> of the profile, then the copy of
  the attributes that are left.\<close>

definition legacy_profile ::
  "jsval \<Rightarrow> (string \<times> jsval) list \<Rightarrow> jsval \<Rightarrow> jsval \<Rightarrow> js_error + (string \<times> jsval) list" where
  "legacy_profile casPropertyMap attributes extended_id username =
     then_e (legacy_scalar casPropertyMap ''provider''
               (attributes,
                [(''provider'', JStr ''CAS''),
                 (''id'', js_or extended_id username),
                 (''displayName'', js_or (obj_get attributes ''displayName'') username),
                 (''name'', JObj [(''familyName'', JNull), (''givenName'', JNull),
                                  (''middleName'', JNull)]),
                 (''emails'', JArr [])])) (\<lambda>s1.
     then_e (legacy_scalar casPropertyMap ''id'' s1) (\<lambda>s2.
     then_e (legacy_scalar casPropertyMap ''displayName'' s2) (\<lambda>s3.
     then_e (legacy_name casPropertyMap [''familyName'', ''givenName'', ''middleName''] (fst s3)
               [(''familyName'', JNull), (''givenName'', JNull), (''middleName'', JNull)]) (\<lambda>s4.
     then_e (legacy_mapped_key casPropertyMap ''emails'') (\<lambda>mappedKey.
       Inr (foldl (\<lambda>profile kv. obj_set profile (fst kv) (snd kv))
              (obj_set (obj_set (snd s3) ''name'' (JObj (snd s4)))
                 ''emails'' (legacy_emails (obj_get (fst s4) mappedKey)))
              (obj_delete (fst s4) mappedKey)))))))"

section \<open>Inputs used in the statements\<close>

text \<open>One \<open>Attribute\<close> element of a parsed response, with its name and the text of
  its value.\<close>

definition attribute_elem :: "string \<times> jsval \<Rightarrow> jsval" where
  "attribute_elem nv =
     JObj [(''@_AttributeName'', JStr (fst nv)),
           (''AttributeValue'', JObj [(''#text'', snd nv)])]"

text \<open>
  How fast-xml-parser hands over the elements with one tag under one parent.  The call in
  \<open>validate\<close> passes the options \<open>ignoreAttributes\<close>, \<open>ignoreNameSpace\<close> and
  \<open>parseAttributeValue\<close> only, so the array mode of the parser is off: no element
  gives no property, one element gives the element itself, several give their list.
\<close>

definition fxp_tag :: "string \<Rightarrow> jsval list \<Rightarrow> (string \<times> jsval) list" where
  "fxp_tag name elems =
     (case elems of
        [] \<Rightarrow> []
      | [elem] \<Rightarrow> [(name, elem)]
      | _ \<Rightarrow> [(name, JArr elems)])"

text \<open>One \<open>Assertion\<close> element with its subject and its \<open>Attribute\<close>
  elements.\<close>

definition assertion_elem :: "jsval \<times> jsval list \<Rightarrow> jsval" where
  "assertion_elem assertion =
     JObj [(''AttributeStatement'', JObj
       ((''Subject'', JObj [(''NameIdentifier'', JObj [(''#text'', fst assertion)])])
        # fxp_tag ''Attribute'' (snd assertion)))]"

text \<open>The tree of a success response: the status value \<open>ns2:Success\<close> and the
  assertions, each given by its subject and its attributes.\<close>

definition saml_response :: "(jsval \<times> jsval list) list \<Rightarrow> jsval" where
  "saml_response assertions =
     JObj [(''Envelope'', JObj [(''Body'', JObj [(''Response'', JObj
       ((''Status'', JObj [(''StatusCode'', JObj [(''@_Value'', JStr ''ns2:Success'')])])
        # fxp_tag ''Assertion'' (map assertion_elem assertions)))])])]"

text \<open>What \<open>url.parse\<close> returns for
  \<open>https://www.example.com/cas/public\<close>, the address used by the tests.\<close>

definition example_url :: jsval where
  "example_url =
     JObj [(''protocol'', JStr ''https:''), (''hostname'', JStr ''www.example.com''),
           (''port'', JNull), (''pathname'', JStr ''/cas/public''),
           (''href'', JStr ''https://www.example.com/cas/public'')]"

text \<open>The attribute keys that a property map names: the values of its scalar
  properties and of its \<open>name\<close> section, and the keys of its list entries.\<close>

definition referenced :: "property_map \<Rightarrow> string set" where
  "referenced propertyMap =
     snd ` set (pm_scalars propertyMap) \<union> snd ` set (pm_name propertyMap)
     \<union> fst ` set (pm_emails propertyMap) \<union> fst ` set (pm_telephones propertyMap)
     \<union> (\<Union>adresse \<in> set (pm_adresses propertyMap).
          {k_street (fst adresse), k_town (fst adresse), k_streetcode (fst adresse),
           k_country (fst adresse)})
     \<union> (\<Union>organization \<in> set (pm_organizations propertyMap).
          {k_code (fst organization), k_name (fst organization)})"

text \<open>A property map without any entry, and the property map of the README (the
  scalar properties \<open>id\<close> and \<open>unite\<close>, and the five sections).\<close>

definition empty_map :: property_map where
  "empty_map = \<lparr>pm_scalars = [], pm_name = [], pm_emails = [], pm_telephones = [],
                pm_adresses = [], pm_organizations = []\<rparr>"

definition readme_map :: property_map where
  "readme_map =
     \<lparr>pm_scalars = [(''id'', ''UTILISATEUR.ID''), (''unite'', ''UTILISATEUR.UNITE'')],
      pm_name = [(''civilite'', ''UTILISATEUR.CIVILITE''), (''givenName'', ''UTILISATEUR.PRENOM''),
                 (''familyName'', ''UTILISATEUR.NOM'')],
      pm_emails = [(''UTILISATEUR.MEL'', ''principal''), (''UTILISATEUR.MELPR'', ''professionnel'')],
      pm_telephones = [(''UTILISATEUR.TEL_FIXE'', ''fixe'')],
      pm_adresses =
        [(\<lparr>k_street = ''UTILISATEUR.ADR_RUE'', k_town = ''UTILISATEUR.ADR_VILLE'',
           k_streetcode = ''UTILISATEUR.ADR_CODEPOSTAL'', k_country = ''UTILISATEUR.ADR_PAYS_NOM''\<rparr>,
          ''principale''),
         (\<lparr>k_street = ''ENTREPRISE.ADR_RUE'', k_town = ''ENTREPRISE.ADR_VILLE'',
           k_streetcode = ''ENTREPRISE.ADR_CODEPOSTAL'', k_country = ''ENTREPRISE.ADR_PAYS_NOM''\<rparr>,
          ''entreprise'')],
      pm_organizations =
        [(\<lparr>k_code = ''ENTREPRISE.SIREN'', k_name = ''ENTREPRISE.RAISON_SOCIALE''\<rparr>, ''principale'')]\<rparr>"


text \<open>Two bags hold the same under every key of a set.\<close>

definition agree :: "string set \<Rightarrow> bag \<Rightarrow> bag \<Rightarrow> bool" where
  "agree K a1 a2 = (\<forall>k\<in>K. a1 k = a2 k)"

text \<open>A request that comes back with a ticket, and the same request after one retry
  in the window of token 1.\<close>

definition stale_request :: request where
  "stale_request = \<lparr>req_originalUrl = Some ''/login?ticket=ST-1-abc'', req_url = ''/login?ticket=ST-1-abc'',
      req_query = [(''ticket'', JStr ''ST-1-abc'')]\<rparr>"

definition retried_request :: request where
  "retried_request = \<lparr>req_originalUrl = Some ''/login?_cas_retry=1&ticket=ST-1-abc'',
      req_url = ''/login?_cas_retry=1&ticket=ST-1-abc'',
      req_query = [(''_cas_retry'', JStr ''1''), (''ticket'', JStr ''ST-1-abc'')]\<rparr>"

section \<open>Properties\<close>

subsection \<open>The retry token\<close>

lemma Math_round_div: "Math_round (of_int t / 60000) = (t + 30000) div 60000"
proof -
  have "of_int t / (60000::rat) + 1 / 2 = of_int (t + 30000) / of_int 60000"
    by (simp add: field_simps)
  then show ?thesis
    unfolding Math_round_def by (simp only: floor_divide_of_int_eq)
qed

text \<open>
  C3, as amended.  The token is the time in minutes rounded to the nearest integer, a
  half rounding up: the floor of \<open>(t + 30000) / 60000\<close>.  The windows are 60 seconds
  long and start 30 seconds before each whole minute.
\<close>

theorem retry_token_rounds: "retry_token t = (t + 30000) div 60000"
  unfolding retry_token_def by (rule Math_round_div)

text \<open>
  C3 as stated fails: 30 seconds after the epoch the floor of \<open>t / 60000\<close> is 0 and
  the token is 1.
\<close>

theorem retry_token_not_floor: "retry_token 30000 \<noteq> 30000 div 60000"
  by (simp add: retry_token_def Math_round_def)

subsection \<open>The request body\<close>

text \<open>
  C4, as amended.  For every ticket string, the envelope built by \<open>validate\<close> holds
  the ticket as it is, between the opening and the closing tag of
  \<open>AssertionArtifact\<close>: no character of it is escaped.
\<close>

theorem soapEnvelope_verbatim:
  "soapEnvelope uuid_v4 toISOString ticket
     = envelope_head uuid_v4 toISOString @ ticket @ envelope_tail"
  by (simp add: soapEnvelope_def envelope_head_def envelope_tail_def)

text \<open>
  C4 as stated fails: for the ticket \<open><\<close> the envelope is not the one that holds the
  escaped ticket.
\<close>

theorem soapEnvelope_not_escaped:
  "soapEnvelope ''r'' ''i'' ''<''
     \<noteq> envelope_head ''r'' ''i'' @ spec_xml_escape ''<'' @ envelope_tail"
  by (simp add: soapEnvelope_def envelope_head_def envelope_tail_def)

subsection \<open>The response parser\<close>

lemma then_e_simps [simp]: "then_e (Inl e) f = Inl e" "then_e (Inr x) f = f x"
  by (simp_all add: then_e_def)

text \<open>On a list of \<open>Attribute\<close> elements, none of them called \<open>__proto__\<close>, the
  loop stores the text of the last element of each name.\<close>

lemma parseAttributes_loop_wf:
  "''__proto__'' \<notin> fst ` set nvs \<Longrightarrow>
   parseAttributes_loop (map attribute_elem nvs) attributes
     = Inr (attributes\<lparr>ao_own := ao_own attributes ++ map_of (rev nvs)\<rparr>)"
proof (induction nvs arbitrary: attributes)
  case Nil
  show ?case by simp
next
  case (Cons nv nvs)
  from Cons.prems have n: "fst nv \<noteq> ''__proto__''" and r: "''__proto__'' \<notin> fst ` set nvs"
    by auto
  let ?next = "attributes\<lparr>ao_own := (ao_own attributes)(fst nv \<mapsto> snd nv)\<rparr>"
  have step: "parseAttributes_loop (map attribute_elem (nv # nvs)) attributes
          = parseAttributes_loop (map attribute_elem nvs) ?next"
    using n by (simp add: attribute_elem_def obj_get_def assign_attribute_def)
  have maps: "(ao_own attributes)(fst nv \<mapsto> snd nv) ++ map_of (rev nvs)
          = ao_own attributes ++ map_of (rev (nv # nvs))"
    by (cases nv) (simp add: fun_eq_iff map_add_def split: option.splits)
  have own: "ao_own ?next = (ao_own attributes)(fst nv \<mapsto> snd nv)" by simp
  have twice: "r\<lparr>ao_own := x, ao_own := y\<rparr> = r\<lparr>ao_own := y\<rparr>"
    for r :: attributes_object and x y by simp
  show ?case
    unfolding step Cons.IH [OF r] own maps twice ..
qed

lemma fxp_tag_several: "fxp_tag name (x # y # zs) = [(name, JArr (x # y # zs))]"
  by (simp add: fxp_tag_def)

lemma fxp_tag_one: "fxp_tag name [x] = [(name, x)]"
  by (simp add: fxp_tag_def)

text \<open>An element called \<open>__proto__\<close> with a string as its text leaves no trace in
  the bag.\<close>

lemma parseAttributes_proto_name:
  "parseAttributes to_number
     (JArr [attribute_elem (''__proto__'', JStr ''x''), attribute_elem (''a'', JStr ''1'')])
     = Inr \<lparr>ao_own = [''a'' \<mapsto> JStr ''1''], ao_proto = None\<rparr>"
  by (simp add: attribute_elem_def obj_get_def assign_attribute_def setter_reachable_def
        empty_attributes_def)

text \<open>When the response holds several assertions and the first of them several
  attributes, the handler finds the lists it expects and passes the subject and this bag
  to the callback.\<close>

lemma on_end_repeated_tags:
  assumes "fxp_parse response
             = Inr (saml_response ((userId, map attribute_elem (nv1 # nv2 # nvs)) # second # others))"
      and "truthy userId"
      and "''__proto__'' \<notin> fst ` set (nv1 # nv2 # nvs)"
  shows "on_end to_number fxp_parse ticket response
           = Inr (CallbackSuccess userId
                    \<lparr>ext_username = userId,
                     ext_attributes = \<lparr>ao_own = map_of (rev (nv1 # nv2 # nvs)), ao_proto = None\<rparr>,
                     ext_ticket = ticket\<rparr>)"
proof -
  have l: "parseAttributes_loop (map attribute_elem (nv1 # nv2 # nvs)) empty_attributes
      = Inr \<lparr>ao_own = map_of (rev (nv1 # nv2 # nvs)), ao_proto = None\<rparr>"
    using parseAttributes_loop_wf [OF assms(3), of empty_attributes]
    by (simp add: empty_attributes_def)
  have t: "fxp_tag ''Attribute'' (map attribute_elem (nv1 # nv2 # nvs))
      = [(''Attribute'', JArr (map attribute_elem (nv1 # nv2 # nvs)))]"
    by (simp add: fxp_tag_def)
  show ?thesis
    using assms(1,2) l
    by (simp add: on_end_def dispatch_def dispatch_success_def saml_response_def fxp_tag_several
          assertion_elem_def t obj_get_def del: parseAttributes_loop.simps)
qed

text \<open>
  C1, at the input where the code departs from it.  For the response with one assertion,
  the subject \<open>bob\<close> and the one attribute \<open>UTILISATEUR.MEL\<close>, the parser gives
  the assertion as an object, \<open>Assertion[0]\<close> is \<open>undefined\<close> and the handler
  ends with a \<open>TypeError\<close>: the callback is not called.  With a second assertion
  the handler goes on, but the one attribute is an object without \<open>length\<close>, the
  loop does not run and the callback gets an empty bag.
\<close>

theorem lone_assertion_throws:
  "on_end to_number
     (\<lambda>response. Inr (saml_response
        [(JStr ''bob'', [attribute_elem (''UTILISATEUR.MEL'', JStr ''b@x.com'')])]))
     ticket response
     = Inl TypeError
   \<and> on_end to_number
       (\<lambda>response. Inr (saml_response
          [(JStr ''bob'', [attribute_elem (''UTILISATEUR.MEL'', JStr ''b@x.com'')]),
           (JStr ''bob'', [])]))
       ticket response
     = Inr (CallbackSuccess (JStr ''bob'')
              \<lparr>ext_username = JStr ''bob'', ext_attributes = empty_attributes,
               ext_ticket = ticket\<rparr>)"
  by (simp add: on_end_def dispatch_def dispatch_success_def saml_response_def fxp_tag_def
        assertion_elem_def attribute_elem_def obj_get_def show_nat.simps digit_char_def
        iterations_def)

text \<open>When the parser rejects the response text, the handler calls the callback with
  the parser's error and \<open>false\<close>.\<close>

lemma on_end_parse_error:
  "fxp_parse response = Inl error \<Longrightarrow>
   on_end to_number fxp_parse ticket response = Inr (CallbackError error (Some False))"
  by (simp add: on_end_def)

text \<open>When the parser accepts the text and the tree has no \<open>Envelope\<close>, the handler
  ends with a \<open>TypeError\<close>.\<close>

lemma on_end_without_envelope:
  "fxp_parse response = Inr (JObj kvs) \<Longrightarrow> map_of kvs ''Envelope'' = None \<Longrightarrow>
   on_end to_number fxp_parse ticket response = Inl TypeError"
  by (simp add: on_end_def dispatch_def obj_get_def)

text \<open>
  C9, at the input where the code departs from it.  The text \<open><html></html>\<close> is
  well-formed, so the parser returns its tree; the reads of
  \<open>jsonResponse['Envelope']['Body']\<close> are outside the \<open>try\<close>, and the handler
  ends with a \<open>TypeError\<close> instead of calling the callback with an error.
\<close>

theorem on_end_missing_root:
  "on_end to_number (\<lambda>r. Inr (JObj [(''html'', JStr [])])) ''ST-1'' ''<html></html>''
     = Inl TypeError"
  by (simp add: on_end_def dispatch_def obj_get_def)

subsection \<open>The cheerio client\<close>

text \<open>
  C10.  On every instance that the constructor returns, \<open>validate\<close> of
  \<open>lib/cerbere.js\<close> ends with a \<open>TypeError\<close> before any request is made: it reads
  \<open>cerbereURL\<close>, a property that the constructor does not set, and then
  \<open>hostname\<close> of \<open>undefined\<close>.  No handler is registered, so the callback is never
  called and the code that parses the response is not reached.
\<close>

theorem validate_cheerio_throws:
  "Cerbere url_parse options = Inr this \<Longrightarrow>
   validate_cheerio url_format uuid_v4 toISOString this ticket service = ([], Some TypeError)"
  by (auto simp: Cerbere_def validate_cheerio_def then_e_def obj_get_def
        split: sum.splits if_splits)

theorem validate_cheerio_throws_witness:
  "Cerbere (\<lambda>u. Inr example_url) (JObj [(''url'', JStr ''https://www.example.com/cas/public'')])
     = Inr (JObj [(''cerbere_url'', example_url), (''base_path'', JStr ''/cas/public'')])
   \<and> validate_cheerio (\<lambda>p t. p @ ''?TARGET='' @ t) ''u'' ''d''
        (JObj [(''cerbere_url'', example_url), (''base_path'', JStr ''/cas/public'')])
        ''ST-1'' ''https://www.example.com/'' = ([], Some TypeError)"
proof -
  have h: "Cerbere (\<lambda>u. Inr example_url)
             (JObj [(''url'', JStr ''https://www.example.com/cas/public'')])
     = Inr (JObj [(''cerbere_url'', example_url), (''base_path'', JStr ''/cas/public'')])"
    by (simp add: Cerbere_def js_or_def obj_get_def example_url_def)
  from validate_cheerio_throws [OF h] h show ?thesis by simp
qed

text \<open>The other client reads the property that the constructor sets, and sends the
  request.\<close>

lemma validate_fxp_sends:
  "validate_fxp (\<lambda>p t. p @ ''?TARGET='' @ t) ''u'' ''d''
     (JObj [(''cerbere_url'', example_url), (''base_path'', JStr ''/cas/public'')])
     ''ST-1'' ''s''
   = ([HttpsRequest \<lparr>ro_host = JStr ''www.example.com'', ro_port = JNull,
                     ro_path = ''/cas/public/samlValidate?TARGET=s'', ro_method = ''POST'',
                     ro_headers = validate_headers\<rparr>,
       ReqWrite (soapEnvelope ''u'' ''d'' ''ST-1''), ReqEnd], None)"
  by (simp add: validate_fxp_def obj_get_def example_url_def)

subsection \<open>The attribute normalizer\<close>

lemma agree_delete: "agree K a1 a2 \<Longrightarrow> agree K (a1(k := None)) (a2(k := None))"
  by (simp add: agree_def)

lemma agree_get: "agree K a1 a2 \<Longrightarrow> k \<in> K \<Longrightarrow> bag_get a1 k = bag_get a2 k"
  by (simp add: agree_def bag_get_def)

lemma map_name_agree:
  "agree K a1 a2 \<Longrightarrow> snd ` set nm \<subseteq> K \<Longrightarrow>
   snd (map_name nm a1 n) = snd (map_name nm a2 n)
   \<and> agree K (fst (map_name nm a1 n)) (fst (map_name nm a2 n))"
proof (induction nm arbitrary: a1 a2 n)
  case Nil
  then show ?case by simp
next
  case (Cons p nm)
  obtain nameKey mapped where p: "p = (nameKey, mapped)" by (cases p)
  from Cons.prems p have g: "bag_get a1 mapped = bag_get a2 mapped"
    by (auto intro: agree_get)
  from Cons.prems have "agree K (a1(nameKey := None)) (a2(nameKey := None))"
    by (simp add: agree_delete)
  moreover from Cons.prems have "snd ` set nm \<subseteq> K" by simp
  ultimately show ?case using Cons.IH p g by simp
qed

lemma map_emails_agree:
  "agree K a1 a2 \<Longrightarrow> fst ` set es \<subseteq> K \<Longrightarrow>
   snd (map_emails es a1 acc) = snd (map_emails es a2 acc)
   \<and> agree K (fst (map_emails es a1 acc)) (fst (map_emails es a2 acc))"
proof (induction es arbitrary: a1 a2 acc)
  case Nil
  then show ?case by simp
next
  case (Cons p es)
  obtain key type where p: "p = (key, type)" by (cases p)
  from Cons.prems p have g: "bag_get a1 key = bag_get a2 key"
    by (auto intro: agree_get)
  from Cons.prems have "agree K (a1(key := None)) (a2(key := None))"
    by (simp add: agree_delete)
  moreover from Cons.prems have "fst ` set es \<subseteq> K" by simp
  ultimately show ?case using Cons.IH p g by simp
qed

lemma map_telephones_agree:
  "agree K a1 a2 \<Longrightarrow> fst ` set ts \<subseteq> K \<Longrightarrow>
   snd (map_telephones ts a1 acc) = snd (map_telephones ts a2 acc)
   \<and> agree K (fst (map_telephones ts a1 acc)) (fst (map_telephones ts a2 acc))"
proof (induction ts arbitrary: a1 a2 acc)
  case Nil
  then show ?case by simp
next
  case (Cons p ts)
  obtain key type where p: "p = (key, type)" by (cases p)
  from Cons.prems p have g: "bag_get a1 key = bag_get a2 key"
    by (auto intro: agree_get)
  from Cons.prems have "agree K (a1(type := None)) (a2(type := None))"
    by (simp add: agree_delete)
  moreover from Cons.prems have "fst ` set ts \<subseteq> K" by simp
  ultimately show ?case using Cons.IH p g by simp
qed

lemma map_extra_agree:
  "agree K a1 a2 \<Longrightarrow> snd ` set ss \<subseteq> K \<Longrightarrow> map_extra ss a1 extra = map_extra ss a2 extra"
proof (induction ss arbitrary: extra)
  case Nil
  then show ?case by simp
next
  case (Cons p ss)
  obtain property mapped where p: "p = (property, mapped)" by (cases p)
  from Cons.prems p have g: "bag_get a1 mapped = bag_get a2 mapped"
    by (auto intro: agree_get)
  from Cons.prems have "snd ` set ss \<subseteq> K" by simp
  with Cons.IH Cons.prems(1) p g show ?case by simp
qed

lemma map_scalar_agree:
  "agree K a1 a2 \<Longrightarrow> snd ` set (pm_scalars pm) \<subseteq> K \<Longrightarrow>
   map_scalar pm a1 key current = map_scalar pm a2 key current"
  by (auto simp: map_scalar_def split: option.splits dest!: map_of_SomeD intro!: agree_get)

lemma map_adresse_agree:
  "agree K a1 a2 \<Longrightarrow>
   {k_street (fst adresse), k_town (fst adresse), k_streetcode (fst adresse), k_country (fst adresse)} \<subseteq> K \<Longrightarrow>
   map_adresse a1 adresse = map_adresse a2 adresse"
  by (simp add: map_adresse_def agree_get)

lemma map_organization_agree:
  "agree K a1 a2 \<Longrightarrow> {k_code (fst organization), k_name (fst organization)} \<subseteq> K \<Longrightarrow>
   map_organization a1 organization = map_organization a2 organization"
  by (simp add: map_organization_def agree_get)

lemma normalize_agree:
  assumes a: "agree (referenced pm) a1 a2"
  shows "normalize pm a1 profile = normalize pm a2 profile"
proof -
  let ?K = "referenced pm"
  have sc: "snd ` set (pm_scalars pm) \<subseteq> ?K" and nm: "snd ` set (pm_name pm) \<subseteq> ?K"
    and em: "fst ` set (pm_emails pm) \<subseteq> ?K" and te: "fst ` set (pm_telephones pm) \<subseteq> ?K"
    by (auto simp: referenced_def)
  obtain b1 n1 where m1: "map_name (pm_name pm) a1 (p_name profile) = (b1, n1)" by (cases "map_name (pm_name pm) a1 (p_name profile)")
  obtain b2 n2 where m2: "map_name (pm_name pm) a2 (p_name profile) = (b2, n2)" by (cases "map_name (pm_name pm) a2 (p_name profile)")
  from map_name_agree [OF a nm, of "p_name profile"] m1 m2
  have n: "n1 = n2" and b: "agree ?K b1 b2" by simp_all
  obtain c1 e1 where x1: "map_emails (pm_emails pm) b1 (p_emails profile) = (c1, e1)" by (cases "map_emails (pm_emails pm) b1 (p_emails profile)")
  obtain c2 e2 where x2: "map_emails (pm_emails pm) b2 (p_emails profile) = (c2, e2)" by (cases "map_emails (pm_emails pm) b2 (p_emails profile)")
  from map_emails_agree [OF b em, of "p_emails profile"] x1 x2
  have e: "e1 = e2" and c: "agree ?K c1 c2" by simp_all
  obtain d1 t1 where y1: "map_telephones (pm_telephones pm) c1 (p_telephones profile) = (d1, t1)" by (cases "map_telephones (pm_telephones pm) c1 (p_telephones profile)")
  obtain d2 t2 where y2: "map_telephones (pm_telephones pm) c2 (p_telephones profile) = (d2, t2)" by (cases "map_telephones (pm_telephones pm) c2 (p_telephones profile)")
  from map_telephones_agree [OF c te, of "p_telephones profile"] y1 y2
  have t: "t1 = t2" and d: "agree ?K d1 d2" by simp_all
  have ad: "map (map_adresse d1) (pm_adresses pm) = map (map_adresse d2) (pm_adresses pm)"
    by (rule map_cong [OF refl], rule map_adresse_agree [OF d]) (auto simp: referenced_def)
  have og: "map (map_organization d1) (pm_organizations pm) = map (map_organization d2) (pm_organizations pm)"
    by (rule map_cong [OF refl], rule map_organization_agree [OF d]) (auto simp: referenced_def)
  have ex: "map_extra (pm_scalars pm) d1 (p_extra profile) = map_extra (pm_scalars pm) d2 (p_extra profile)"
    by (rule map_extra_agree [OF d sc])
  show ?thesis
    by (simp add: normalize_def m1 m2 x1 x2 y1 y2 n e t ad og ex map_scalar_agree [OF a sc])
qed

lemma normalize_id_irrelevant:
  "''id'' \<in> fst ` set (pm_scalars pm) \<Longrightarrow>
   normalize pm a (initial_profile x) = normalize pm a (initial_profile y)"
proof -
  assume "''id'' \<in> fst ` set (pm_scalars pm)"
  then obtain m where "map_of (pm_scalars pm) ''id'' = Some m"
    by (metis domIff dom_map_of_conv_image_fst not_None_eq)
  then show ?thesis
    by (simp add: normalize_def initial_profile_def map_scalar_def)
qed

text \<open>
  C5, as amended.  Two attribute bags that hold the same under every key named by the
  property map give the same profile, in both strategies, provided the bags also hold the
  same under the literal key \<open>id\<close> or the property map has an \<open>id\<close> entry.
\<close>

theorem unreferenced_keys_dropped:
  assumes "\<forall>k \<in> referenced pm. a1 k = a2 k"
      and "''id'' \<in> fst ` set (pm_scalars pm) \<or> a1 ''id'' = a2 ''id''"
  shows "build_profile pm a1 username = build_profile pm a2 username
         \<and> build_profile_async pm a1 = build_profile_async pm a2"
proof -
  from assms(1) have a: "agree (referenced pm) a1 a2" by (simp add: agree_def)
  from assms(2) show ?thesis
  proof
    assume i: "''id'' \<in> fst ` set (pm_scalars pm)"
    show ?thesis
      unfolding build_profile_def build_profile_async_def
      using normalize_agree [OF a] normalize_id_irrelevant [OF i] by metis
  next
    assume "a1 ''id'' = a2 ''id''"
    then have "bag_get a1 ''id'' = bag_get a2 ''id''" by (simp add: bag_get_def)
    then show ?thesis
      unfolding build_profile_def build_profile_async_def
      using normalize_agree [OF a] by simp
  qed
qed

theorem unreferenced_keys_dropped_witness:
  "build_profile readme_map [''UTILISATEUR.ID'' \<mapsto> JStr ''42'', ''id'' \<mapsto> JStr ''a'', ''SECRET'' \<mapsto> JStr ''s1''] (JStr ''bob'')
   = build_profile readme_map [''UTILISATEUR.ID'' \<mapsto> JStr ''42'', ''SECRET'' \<mapsto> JStr ''s2''] (JStr ''bob'')
  \<and> build_profile_async readme_map [''UTILISATEUR.ID'' \<mapsto> JStr ''42'', ''id'' \<mapsto> JStr ''a'', ''SECRET'' \<mapsto> JStr ''s1'']
   = build_profile_async readme_map [''UTILISATEUR.ID'' \<mapsto> JStr ''42'', ''SECRET'' \<mapsto> JStr ''s2'']"
proof -
  have h1: "\<forall>k \<in> referenced readme_map.
      [''UTILISATEUR.ID'' \<mapsto> JStr ''42'', ''id'' \<mapsto> JStr ''a'', ''SECRET'' \<mapsto> JStr ''s1''] k
      = [''UTILISATEUR.ID'' \<mapsto> JStr ''42'', ''SECRET'' \<mapsto> JStr ''s2''] k"
    by (simp add: referenced_def readme_map_def)
  have h2: "''id'' \<in> fst ` set (pm_scalars readme_map)
     \<or> [''UTILISATEUR.ID'' \<mapsto> JStr ''42'', ''id'' \<mapsto> JStr ''a'', ''SECRET'' \<mapsto> JStr ''s1''] ''id''
       = [''UTILISATEUR.ID'' \<mapsto> JStr ''42'', ''SECRET'' \<mapsto> JStr ''s2''] ''id''"
    by (simp add: readme_map_def)
  from unreferenced_keys_dropped [OF h1 h2] show ?thesis .
qed

text \<open>
  C5 as stated fails: with a property map that names no key at all, two bags that differ
  in the key \<open>id\<close> give different profiles, since the profile starts from
  \<open>attributes.id\<close>.
\<close>

theorem literal_id_copied: "referenced empty_map = {}
  \<and> build_profile empty_map [''id'' \<mapsto> JStr ''x''] (JStr ''bob'') \<noteq> build_profile empty_map [''id'' \<mapsto> JStr ''y''] (JStr ''bob'')"
  by (simp add: referenced_def empty_map_def build_profile_def normalize_def initial_profile_def map_scalar_def bag_get_def js_or_def)






lemma restrict_all: "a |` (- {}) = a"
  by (simp add: restrict_map_def)




lemma obj_get_obj_set: "obj_get (obj_set n k v) k' = (if k' = k then v else obj_get n k')"
  by (induction n) (auto simp: obj_get_def)

lemma p_name_normalize:
  "p_name (normalize pm a profile)
     = obj_set (snd (map_name (pm_name pm) a (p_name profile))) ''displayName''
         (displayName (snd (map_name (pm_name pm) a (p_name profile))))"
  by (simp add: normalize_def split_beta)

lemma normalize_displayName:
  "obj_get (p_name (normalize pm a profile)) ''displayName''
     = JStr (to_str (obj_get (p_name (normalize pm a profile)) ''civilite'') @ '' ''
             @ to_str (obj_get (p_name (normalize pm a profile)) ''givenName'') @ '' ''
             @ to_str (obj_get (p_name (normalize pm a profile)) ''familyName''))"
  by (simp add: p_name_normalize obj_get_obj_set displayName_def)

lemma displayName_unmapped:
  "obj_get (p_name (normalize (pm\<lparr>pm_name := []\<rparr>) a (initial_profile x))) ''displayName''
     = JStr ''null null null''"
  by (simp add: p_name_normalize obj_get_obj_set displayName_def initial_profile_def obj_get_def)

lemma displayName_partly_mapped:
  "obj_get (p_name (normalize (pm\<lparr>pm_name := [(''givenName'', ''UTILISATEUR.PRENOM'')]\<rparr>)
                      [''UTILISATEUR.PRENOM'' \<mapsto> JStr ''Bob''] (initial_profile x))) ''displayName''
     = JStr ''null Bob null''"
  by (simp add: p_name_normalize obj_get_obj_set displayName_def initial_profile_def obj_get_def
        bag_get_def)

text \<open>
  C8.  \<open>name.displayName\<close> is the text of \<open>civilite\<close>, \<open>givenName\<close> and
  \<open>familyName\<close> of the profile's name, in this order, with one space between them,
  in both strategies.  A subfield that the property map does not name stays \<open>null\<close>
  and appears as the text \<open>null\<close>.
\<close>

theorem displayName_joined:
  "obj_get (p_name (build_profile pm a u)) ''displayName''
     = JStr (to_str (obj_get (p_name (build_profile pm a u)) ''civilite'') @ '' ''
             @ to_str (obj_get (p_name (build_profile pm a u)) ''givenName'') @ '' ''
             @ to_str (obj_get (p_name (build_profile pm a u)) ''familyName''))
   \<and> obj_get (p_name (build_profile_async pm a)) ''displayName''
     = JStr (to_str (obj_get (p_name (build_profile_async pm a)) ''civilite'') @ '' ''
             @ to_str (obj_get (p_name (build_profile_async pm a)) ''givenName'') @ '' ''
             @ to_str (obj_get (p_name (build_profile_async pm a)) ''familyName''))
   \<and> obj_get (p_name (build_profile (pm\<lparr>pm_name := []\<rparr>) a u)) ''displayName''
       = JStr ''null null null''
   \<and> obj_get (p_name (build_profile (pm\<lparr>pm_name := [(''givenName'', ''UTILISATEUR.PRENOM'')]\<rparr>)
                        [''UTILISATEUR.PRENOM'' \<mapsto> JStr ''Bob''] u)) ''displayName''
       = JStr ''null Bob null''"
  unfolding build_profile_def build_profile_async_def
  using normalize_displayName displayName_unmapped displayName_partly_mapped by blast

text \<open>
  C7, at the input where the code departs from it.  With the property map of the README
  and a bag without \<open>UTILISATEUR.ID\<close>, the \<open>id\<close> of the profile is
  \<open>undefined\<close>, not the subject identifier \<open>bob\<close>: the loop over the profile's
  keys replaces \<open>attributes.id || username\<close> by the mapped lookup.
\<close>

theorem mapped_id_no_fallback: "p_id (build_profile readme_map [''UTILISATEUR.MEL'' \<mapsto> JStr ''b@x.com''] (JStr ''bob'')) = JUndefined"
  by (simp add: build_profile_def normalize_def readme_map_def map_scalar_def bag_get_def split_beta)

subsection \<open>The retry controller\<close>

lemma ticket_char_not_eq: "is_ticket_char c \<Longrightarrow> c \<noteq> CHR ''=''"
  by (auto simp: is_ticket_char_def Let_def)

lemma match_cas_retry_needs_eq: "CHR ''='' \<notin> set s \<Longrightarrow> match_cas_retry s = None"
proof -
  assume a: "CHR ''='' \<notin> set s"
  have "take 11 s \<noteq> ''_cas_retry=''"
  proof
    assume "take 11 s = ''_cas_retry=''"
    then have "CHR ''='' \<in> set (take 11 s)" by simp
    then have "CHR ''='' \<in> set s" by (rule in_set_takeD)
    with a show False by simp
  qed
  then show ?thesis by (simp add: match_cas_retry_def)
qed

lemma replace_cas_retry_no_eq: "CHR ''='' \<notin> set s \<Longrightarrow> replace_cas_retry s = s"
  by (induction s) (simp_all add: match_cas_retry_needs_eq)

lemma match_cas_retry_before_query:
  assumes "CHR ''='' \<notin> set p"
  shows "match_cas_retry (p @ CHR ''?'' # s) = None"
proof -
  have "take 11 (p @ CHR ''?'' # s) \<noteq> ''_cas_retry=''"
  proof
    assume e: "take 11 (p @ CHR ''?'' # s) = ''_cas_retry=''"
    show False
    proof (cases "length p < 11")
      case True
      then have "CHR ''?'' \<in> set (take 11 (p @ CHR ''?'' # s))"
        by (cases "11 - length p") (auto simp: take_Cons')
      with e show False by simp
    next
      case False
      then have "take 11 (p @ CHR ''?'' # s) = take 11 p" by simp
      with e have "take 11 p = ''_cas_retry=''" by simp
      then have "CHR ''='' \<in> set (take 11 p)" by simp
      then have "CHR ''='' \<in> set p" by (rule in_set_takeD)
      with assms show False by simp
    qed
  qed
  then show ?thesis by (simp add: match_cas_retry_def)
qed

lemma replace_cas_retry_path:
  "CHR ''='' \<notin> set p \<Longrightarrow>
   replace_cas_retry (p @ CHR ''?'' # s) = p @ CHR ''?'' # replace_cas_retry s"
proof (induction p)
  case Nil
  have "match_cas_retry (CHR ''?'' # s) = None" by (simp add: match_cas_retry_def)
  then show ?case by simp
next
  case (Cons c p)
  then have "match_cas_retry ((c # p) @ CHR ''?'' # s) = None"
    by (intro match_cas_retry_before_query) simp
  with Cons show ?case by simp
qed

lemma replace_cas_retry_ticket:
  "list_all is_ticket_char t \<Longrightarrow> replace_cas_retry (''ticket='' @ t) = ''ticket='' @ t"
proof -
  assume "list_all is_ticket_char t"
  then have "CHR ''='' \<notin> set t"
    using ticket_char_not_eq by (auto simp: list_all_iff)
  then have "replace_cas_retry t = t" by (rule replace_cas_retry_no_eq)
  then show ?thesis by (simp add: match_cas_retry_def)
qed

lemma amp_not_digit: "\<not> is_digit CHR ''&''"
  by (simp add: is_digit_def)

lemma replace_cas_retry_marker:
  assumes "ds \<noteq> []" "list_all is_digit ds"
  shows "replace_cas_retry (''_cas_retry='' @ ds @ ''&'' @ s) = s"
proof -
  from assms(2) have tw: "takeWhile is_digit (ds @ CHR ''&'' # s) = ds"
    by (simp add: takeWhile_append2 list_all_iff amp_not_digit)
  from assms(2) have dw: "dropWhile is_digit (ds @ CHR ''&'' # s) = CHR ''&'' # s"
    by (simp add: dropWhile_append2 list_all_iff amp_not_digit)
  from assms(1) have "match_cas_retry (''_cas_retry='' @ ds @ ''&'' @ s) = Some s"
    by (simp add: match_cas_retry_def tw dw)
  then show ?thesis by simp
qed

lemma replace_ticket_path:
  "CHR ''?'' \<notin> set p \<Longrightarrow> CHR ''&'' \<notin> set p \<Longrightarrow>
   replace_ticket token (p @ s) = p @ replace_ticket token s"
  by (induction p) auto

lemma replace_ticket_here:
  assumes "t \<noteq> []" "list_all is_ticket_char t"
  shows "replace_ticket token (CHR ''?'' # ''ticket='' @ t) = CHR ''?'' # ''_cas_retry='' @ token"
proof -
  from assms(2) have tw: "takeWhile is_ticket_char t = t"
    and dw: "dropWhile is_ticket_char t = []"
    by (simp_all add: list_all_iff)
  show ?thesis by (simp add: tw dw assms(1))
qed

lemma rewrite_url:
  assumes old: "old = [] \<or> (\<exists>ds. ds \<noteq> [] \<and> list_all is_digit ds \<and> old = ''_cas_retry='' @ ds @ ''&'')"
      and path: "CHR ''?'' \<notin> set path" "CHR ''&'' \<notin> set path" "CHR ''='' \<notin> set path"
      and t: "t \<noteq> []" "list_all is_ticket_char t"
  shows "replace_ticket token (replace_cas_retry (path @ ''?'' @ old @ ''ticket='' @ t))
           = path @ ''?_cas_retry='' @ token"
proof -
  have "replace_cas_retry (old @ ''ticket='' @ t) = ''ticket='' @ t"
  proof -
    from old show ?thesis
    proof
      assume "old = []"
      with t(2) show ?thesis using replace_cas_retry_ticket by simp
    next
      assume "\<exists>ds. ds \<noteq> [] \<and> list_all is_digit ds \<and> old = ''_cas_retry='' @ ds @ ''&''"
      then obtain ds where ds: "ds \<noteq> []" "list_all is_digit ds" "old = ''_cas_retry='' @ ds @ ''&''"
        by blast
      from replace_cas_retry_marker [OF ds(1,2), of "''ticket='' @ t"] ds(3)
      show ?thesis by simp
    qed
  qed
  with path(3) have "replace_cas_retry (path @ ''?'' @ old @ ''ticket='' @ t)
      = path @ CHR ''?'' # ''ticket='' @ t"
    using replace_cas_retry_path [of path "old @ ''ticket='' @ t"] by simp
  then show ?thesis
    using replace_ticket_path [OF path(1,2), of token "CHR ''?'' # ''ticket='' @ t"]
      replace_ticket_here [OF t, of token]
    by simp
qed

lemma after_validate_failed:
  "after_validate to_number propertyMap req getTime (Inl err)
     = ([validation_failed to_number req getTime err], Some TypeError)"
  by (simp add: after_validate_def obj_get_def then_e_def)

text \<open>
  After a failed validation, at a time with token \<open>T\<close>: when the \<open>_cas_retry\<close>
  value of the request equals \<open>T\<close>, the only action is \<open>fail(err)\<close>; otherwise
  the only action is a redirect with status 307 to the request URL rewritten by the two
  replacements.  When the request URL is \<open>path?ticket=t\<close> or
  \<open>path?_cas_retry=digits&ticket=t\<close> with a path free of \<open>?\<close>, \<open>&\<close>,
  \<open>=\<close> and a ticket \<open>t\<close> made of the characters \<open>[A-Za-z0-9_.-]\<close>, the target
  is \<open>path?_cas_retry=T\<close>.  The asynchronous strategy takes the same single action.
\<close>

lemma retry_controller:
  "(loose_eq_number to_number (obj_get (req_query req) ''_cas_retry'') (retry_token getTime)
      \<longrightarrow> validation_failed to_number req getTime err = Fail err)
   \<and> (\<not> loose_eq_number to_number (obj_get (req_query req) ''_cas_retry'') (retry_token getTime)
      \<longrightarrow> validation_failed to_number req getTime err
            = Redirect (replace_ticket (show_int (retry_token getTime))
                          (replace_cas_retry (request_url req))) 307)
   \<and> (\<not> loose_eq_number to_number (obj_get (req_query req) ''_cas_retry'') (retry_token getTime)
       \<and> request_url req = path @ ''?'' @ old @ ''ticket='' @ t
       \<and> (old = [] \<or> (\<exists>ds. ds \<noteq> [] \<and> list_all is_digit ds \<and> old = ''_cas_retry='' @ ds @ ''&''))
       \<and> CHR ''?'' \<notin> set path \<and> CHR ''&'' \<notin> set path \<and> CHR ''='' \<notin> set path
       \<and> t \<noteq> [] \<and> list_all is_ticket_char t
      \<longrightarrow> validation_failed to_number req getTime err
            = Redirect (path @ ''?_cas_retry='' @ show_int (retry_token getTime)) 307)
   \<and> fst (after_validate to_number propertyMap req getTime (Inl err))
       = [validation_failed to_number req getTime err]"
proof (intro conjI impI)
  assume "loose_eq_number to_number (obj_get (req_query req) ''_cas_retry'') (retry_token getTime)"
  then show "validation_failed to_number req getTime err = Fail err"
    by (simp add: validation_failed_def)
next
  assume "\<not> loose_eq_number to_number (obj_get (req_query req) ''_cas_retry'') (retry_token getTime)"
  then show "validation_failed to_number req getTime err
            = Redirect (replace_ticket (show_int (retry_token getTime))
                          (replace_cas_retry (request_url req))) 307"
    by (simp add: validation_failed_def)
next
  assume a: "\<not> loose_eq_number to_number (obj_get (req_query req) ''_cas_retry'') (retry_token getTime)
       \<and> request_url req = path @ ''?'' @ old @ ''ticket='' @ t
       \<and> (old = [] \<or> (\<exists>ds. ds \<noteq> [] \<and> list_all is_digit ds \<and> old = ''_cas_retry='' @ ds @ ''&''))
       \<and> CHR ''?'' \<notin> set path \<and> CHR ''&'' \<notin> set path \<and> CHR ''='' \<notin> set path
       \<and> t \<noteq> [] \<and> list_all is_ticket_char t"
  then have "replace_ticket (show_int (retry_token getTime)) (replace_cas_retry (request_url req))
      = path @ ''?_cas_retry='' @ show_int (retry_token getTime)"
    using rewrite_url [of old path t "show_int (retry_token getTime)"] by simp
  with a show "validation_failed to_number req getTime err
            = Redirect (path @ ''?_cas_retry='' @ show_int (retry_token getTime)) 307"
    by (simp add: validation_failed_def)
next
  show "fst (after_validate to_number propertyMap req getTime (Inl err))
       = [validation_failed to_number req getTime err]"
    by (simp add: after_validate_failed)
qed

text \<open>A request that comes back with a stale ticket is redirected once, with the
  marker in place of the ticket.\<close>

lemma retry_controller_example:
  "validation_failed to_number stale_request 60000 (Error ''Validation failed'')
     = Redirect ''/login?_cas_retry=1'' 307"
proof -
  have "retry_token 60000 = (60000 + 30000) div 60000"
    unfolding retry_token_def by (rule Math_round_div)
  then have tok: "retry_token 60000 = 1" by simp
  have sh: "show_int 1 = ''1''"
    by (simp add: show_int_def show_nat.simps digit_char_def)
  have tk: "list_all is_ticket_char ''ST-1-abc''" by (simp add: is_ticket_char_def)
  have q0: "obj_get (req_query stale_request) ''_cas_retry'' = JUndefined"
    by (simp add: stale_request_def obj_get_def)
  have u0: "request_url stale_request = ''/login'' @ ''?'' @ [] @ ''ticket='' @ ''ST-1-abc''"
    by (simp add: stale_request_def request_url_def)
  show ?thesis
    using retry_controller
      [of to_number stale_request 60000 "Error ''Validation failed''" "''/login''" "[]"
          "''ST-1-abc''" readme_map, THEN conjunct2, THEN conjunct2, THEN conjunct1]
      q0 u0 tk tok sh by simp
qed

text \<open>When the request comes back with the marker of the current window, the failure is
  final; in the next window it is redirected again.\<close>

lemma retry_controller_second_failure:
  assumes "to_number ''1'' = Finite 1"
  shows "validation_failed to_number retried_request 60000 err = Fail err
         \<and> validation_failed to_number retried_request 120000 err
             = Redirect ''/login?_cas_retry=2'' 307"
proof -
  have "retry_token 60000 = (60000 + 30000) div 60000"
    and "retry_token 120000 = (120000 + 30000) div 60000"
    unfolding retry_token_def by (rule Math_round_div)+
  then have tok: "retry_token 60000 = 1" "retry_token 120000 = 2" by simp_all
  have sh: "show_int 2 = ''2''"
    by (simp add: show_int_def show_nat.simps digit_char_def)
  have d1: "list_all is_digit ''1''" by (simp add: is_digit_def)
  have tk: "list_all is_ticket_char ''ST-1-abc''" by (simp add: is_ticket_char_def)
  have q1: "obj_get (req_query retried_request) ''_cas_retry'' = JStr ''1''"
    by (simp add: retried_request_def obj_get_def)
  have u1: "request_url retried_request
      = ''/login'' @ ''?'' @ ''_cas_retry=1&'' @ ''ticket='' @ ''ST-1-abc''"
    by (simp add: retried_request_def request_url_def)
  have old1: "\<exists>ds. ds \<noteq> [] \<and> list_all is_digit ds
      \<and> ''_cas_retry=1&'' = ''_cas_retry='' @ ds @ ''&''"
    using d1 by (intro exI [of _ "''1''"]) simp
  have a: "validation_failed to_number retried_request 60000 err = Fail err"
    using retry_controller [of to_number retried_request 60000 err "[]" "[]" "[]" readme_map,
        THEN conjunct1] q1 tok assms by simp
  have b: "validation_failed to_number retried_request 120000 err
      = Redirect ''/login?_cas_retry=2'' 307"
    using retry_controller
      [of to_number retried_request 120000 err "''/login''" "''_cas_retry=1&''" "''ST-1-abc''"
          readme_map, THEN conjunct2, THEN conjunct2, THEN conjunct1]
      q1 u1 old1 tk tok sh assms by simp
  from a b show ?thesis by simp
qed

text \<open>
  C2, at the input where the code departs from it.  The request URL
  \<open>/cb?ticket=%53T-1\<close> carries the ticket \<open>ST-1\<close> with its first letter
  percent-encoded and no marker.  No character of \<open>[\w.-]\<close> follows
  \<open>ticket=\<close>, the pattern does not match, and at every time the redirect goes to the
  request URL itself: the ticket is not removed and no marker is attached.
\<close>

theorem ticket_not_stripped:
  "validation_failed to_number
     \<lparr>req_originalUrl = Some ''/cb?ticket=%53T-1'', req_url = ''/cb?ticket=%53T-1'',
      req_query = [(''ticket'', JStr ''ST-1'')]\<rparr> getTime err
     = Redirect ''/cb?ticket=%53T-1'' 307"
  by (simp add: validation_failed_def obj_get_def request_url_def match_cas_retry_def
        is_ticket_char_def)

subsection \<open>The legacy strategy\<close>

text \<open>Without a \<open>casPropertyMap\<close> the legacy normalization stops at its first
  step.\<close>

lemma legacy_profile_unset:
  "legacy_profile JUndefined attributes extended_id username = Inl TypeError"
  by (simp add: legacy_profile_def legacy_scalar_def legacy_mapped_key_def)

text \<open>With one, it keeps the subject as \<open>id\<close> when the mapped attribute is absent,
  and copies the attributes that no entry names into the profile.\<close>

lemma legacy_profile_copies:
  "legacy_profile (JObj [(''id'', JStr ''uid'')])
     [(''mail'', JStr ''b@x.com''), (''SECRET'', JStr ''s'')] JUndefined (JStr ''bob'')
   = Inr [(''provider'', JStr ''CAS''), (''id'', JStr ''bob''), (''displayName'', JStr ''bob''),
          (''name'', JObj [(''familyName'', JUndefined), (''givenName'', JUndefined),
                           (''middleName'', JUndefined)]),
          (''emails'', JArr [JUndefined]), (''mail'', JStr ''b@x.com''),
          (''SECRET'', JStr ''s'')]"
  by (simp add: legacy_profile_def legacy_scalar_def legacy_mapped_key_def obj_get_def
        obj_delete_def js_or_def legacy_emails_def)

end
